theory Spec2Isabelle
  imports Complex_Main "HOL-Library.Log_Nat"
begin

section \<open>Values carried by the edges\<close>

text \<open>
  Every edge is a Go \<^verbatim>\<open>chan float64\<close>.  A \<^verbatim>\<open>float64\<close> is an IEEE-754 binary64 number: a
  finite value (kept here as the exact rational it denotes), an infinity or a NaN.  The two
  signed zeros are identified: no operation modelled below tells them apart.
\<close>

datatype f64 = Fin rat | PInf | NInf | NaN

text \<open>
  Rounding to binary64, to nearest with ties to even (the rounding of Go's \<^verbatim>\<open>float64\<close>
  arithmetic).  \<open>pow2 k\<close> is the power of two with exponent \<open>k\<close>, \<open>ilog2 x\<close> is the binary
  exponent of a positive \<open>x\<close> (the \<open>e\<close> with \<open>pow2 e \<le> x < pow2 (e + 1)\<close>), and \<open>rne\<close> rounds
  a rational to the nearest integer, a tie to the even one.  A binary64 number has 53 significant bits, so the spacing of the numbers around \<open>x\<close> is
  \<open>pow2 (e - 52)\<close> for the exponent \<open>e\<close> of \<open>x\<close>, and never less than \<open>pow2 (- 1074)\<close> (the
  subnormal range); a result that reaches \<open>pow2 1024\<close> overflows to an infinity.
\<close>

definition pow2 :: "int \<Rightarrow> rat" where
  "pow2 k = (if 0 \<le> k then 2 ^ nat k else 1 / 2 ^ nat (- k))"

definition ilog2 :: "rat \<Rightarrow> int" where
  "ilog2 x = (case quotient_of x of (p, q) \<Rightarrow>
     let d = bitlen p - bitlen q in if pow2 d \<le> x then d else d - 1)"

definition rne :: "rat \<Rightarrow> int" where
  "rne x = (let f = \<lfloor>x\<rfloor>; d = x - of_int f
            in if d < 1 / 2 then f else if 1 / 2 < d then f + 1
               else if even f then f else f + 1)"

definition round64 :: "rat \<Rightarrow> f64" where
  "round64 x = (if x = 0 then Fin 0 else
     let a = \<bar>x\<bar>; e = max (ilog2 a) (- 1022); q = pow2 (e - 52);
         r = of_int (rne (a / q)) * q
     in if pow2 1024 \<le> r then (if 0 < x then PInf else NInf)
        else Fin (if 0 < x then r else - r))"

text \<open>Addition (\<^verbatim>\<open>+\<close>) and comparison (\<^verbatim>\<open>>=\<close>) of \<^verbatim>\<open>float64\<close> values.\<close>

fun fadd :: "f64 \<Rightarrow> f64 \<Rightarrow> f64" where
  "fadd NaN _ = NaN"
| "fadd _ NaN = NaN"
| "fadd PInf NInf = NaN"
| "fadd NInf PInf = NaN"
| "fadd PInf _ = PInf"
| "fadd _ PInf = PInf"
| "fadd NInf _ = NInf"
| "fadd _ NInf = NInf"
| "fadd (Fin a) (Fin b) = round64 (a + b)"

fun fge :: "f64 \<Rightarrow> f64 \<Rightarrow> bool" where
  "fge NaN _ = False"
| "fge _ NaN = False"
| "fge PInf _ = True"
| "fge _ NInf = True"
| "fge NInf _ = False"
| "fge (Fin a) PInf = False"
| "fge (Fin a) (Fin b) = (b \<le> a)"

section \<open>Channels, slices and run-time panics\<close>

text \<open>
  A channel variable is \<^verbatim>\<open>nil\<close> or refers to a channel created by \<^verbatim>\<open>make\<close>.  Channels are
  identified by the number the allocator gave them; the allocator is the counter \<open>h\<close> that
  the operations below pass along.
\<close>

type_synonym chan = "nat option"

definition make_chan :: "nat \<Rightarrow> chan \<times> nat" where
  "make_chan h = (Some h, Suc h)"

text \<open>The run-time panics the engine can raise: indexing a slice out of range
  (index, length) and \<^verbatim>\<open>make\<close> with a negative length.\<close>

datatype panic = Index_out_of_range int nat | Makeslice_len_out_of_range

definition index :: "'a list \<Rightarrow> int \<Rightarrow> panic + 'a" where
  "index xs i = (if 0 \<le> i \<and> i < int (length xs) then Inr (xs ! nat i)
                 else Inl (Index_out_of_range i (length xs)))"

definition assign :: "'a list \<Rightarrow> int \<Rightarrow> 'a \<Rightarrow> panic + 'a list" where
  "assign xs i v = (if 0 \<le> i \<and> i < int (length xs) then Inr (xs[nat i := v])
                    else Inl (Index_out_of_range i (length xs)))"


section \<open>Blocks and the system (loops.go)\<close>

text \<open>
  The interface \<^verbatim>\<open>Block\<close>: the two arity methods and \<^verbatim>\<open>Step\<close>.  A block value carries its
  receiver's state; \<open>Step b st x y\<close> is the call \<^verbatim>\<open>b.Step(x, y)\<close> in state \<open>st\<close> and returns
  the new state, the contents of the slice \<^verbatim>\<open>out\<close> after the call and the boolean result
  (\<open>False\<close> asks the engine to stop).  The arities are Go \<^verbatim>\<open>int\<close>s.  A \<^verbatim>\<open>Step\<close> of some block
  that panics or does not return is outside this record; the \<^verbatim>\<open>Step\<close> of \<^verbatim>\<open>Stop\<close> is modelled
  with its panics further down.
\<close>

record 'st Block =
  Inputs :: int
  Outputs :: int
  Step :: "'st \<Rightarrow> f64 list \<Rightarrow> f64 list \<Rightarrow> 'st \<times> f64 list \<times> bool"
  State :: 'st

record 'st ioBlock =
  Block :: "'st Block"
  In :: "chan list"
  Out :: "chan list"

text \<open>The initial condition \<^verbatim>\<open>IC{value, block, input}\<close>; the field \<^verbatim>\<open>value\<close> is written
  \<open>val\<close> here.\<close>

record IC =
  val :: f64
  block :: int
  input :: int

text \<open>
  The struct \<^verbatim>\<open>System\<close>.  Its boundary slices \<^verbatim>\<open>In\<close> and \<^verbatim>\<open>Out\<close> are written \<open>SIn\<close> and
  \<open>SOut\<close>, the names \<open>In\<close> and \<open>Out\<close> being those of \<open>ioBlock\<close>.  Slices are kept as the
  lists of their elements: the port slices of a block are made by \<^verbatim>\<open>Add\<close> and shared with
  nothing, and the two boundary slices, which the caller assigns, are taken to be separate
  arrays.
\<close>

record 'st System =
  SIn :: "chan list"
  SOut :: "chan list"
  blocks :: "'st ioBlock list"
  initials :: "IC list"
  initialized :: bool

definition System_Inputs :: "'st System \<Rightarrow> int" where
  "System_Inputs s = int (length (SIn s))"

definition System_Outputs :: "'st System \<Rightarrow> int" where
  "System_Outputs s = int (length (SOut s))"



text \<open>
  \<^verbatim>\<open>Connect(src, dst, o, i)\<close>.  The two assignments are made in the source's order; each
  indexing that can panic is a branch.  A panic keeps the system as it was when the panic
  was raised (the first assignment stays done when the second one panics).  The parameter
  \<^verbatim>\<open>o\<close> is written \<open>o'\<close>.  Go's \<^verbatim>\<open>int\<close> has 64 bits; for a negative 64-bit \<open>i\<close> the value
  \<open>- i - 1\<close> lies in the 64-bit range again, so no wrap-around is lost.
\<close>

definition bind_In :: "'st System \<Rightarrow> int \<Rightarrow> int \<Rightarrow> chan \<Rightarrow> panic + 'st System" where
  "bind_In s dst i c =
     (case index (blocks s) dst of
        Inl p \<Rightarrow> Inl p
      | Inr b \<Rightarrow>
          (case assign (In b) i c of
             Inl p \<Rightarrow> Inl p
           | Inr xs \<Rightarrow> Inr (s\<lparr>blocks := (blocks s)[nat dst := b\<lparr>In := xs\<rparr>]\<rparr>)))"

definition bind_Out :: "'st System \<Rightarrow> int \<Rightarrow> int \<Rightarrow> chan \<Rightarrow> panic + 'st System" where
  "bind_Out s src o' c =
     (case index (blocks s) src of
        Inl p \<Rightarrow> Inl p
      | Inr b \<Rightarrow>
          (case assign (Out b) o' c of
             Inl p \<Rightarrow> Inl p
           | Inr xs \<Rightarrow> Inr (s\<lparr>blocks := (blocks s)[nat src := b\<lparr>Out := xs\<rparr>]\<rparr>)))"

definition connect_dst :: "'st System \<Rightarrow> int \<Rightarrow> int \<Rightarrow> chan \<Rightarrow> panic + 'st System" where
  "connect_dst s dst i c =
     (if i < 0 then
        (case assign (SOut s) (- i - 1) c of
           Inl p \<Rightarrow> Inl p
         | Inr xs \<Rightarrow> Inr (s\<lparr>SOut := xs\<rparr>))
      else bind_In s dst i c)"

definition connect_src :: "'st System \<Rightarrow> int \<Rightarrow> int \<Rightarrow> chan \<Rightarrow> panic + 'st System" where
  "connect_src s src o' c =
     (if o' < 0 then
        (case assign (SIn s) (- o' - 1) c of
           Inl p \<Rightarrow> Inl p
         | Inr xs \<Rightarrow> Inr (s\<lparr>SIn := xs\<rparr>))
      else bind_Out s src o' c)"

definition Connect ::
  "'st System \<Rightarrow> nat \<Rightarrow> int \<Rightarrow> int \<Rightarrow> int \<Rightarrow> int \<Rightarrow>
     (panic \<times> 'st System \<times> nat) + ('st System \<times> nat)" where
  "Connect s h src dst o' i =
     (case make_chan h of
        (c, h') \<Rightarrow>
          (case connect_dst s dst i c of
             Inl p \<Rightarrow> Inl (p, s, h')
           | Inr s1 \<Rightarrow>
               (case connect_src s1 src o' c of
                  Inl p \<Rightarrow> Inl (p, s1, h')
                | Inr s2 \<Rightarrow> Inr (s2, h'))))"

text \<open>
  \<^verbatim>\<open>check\<close>.  The error value stands for the result of \<^verbatim>\<open>fmt.Errorf\<close>; \<open>Error\<close> is its
  message.  \<open>find_nil\<close> is the inner \<^verbatim>\<open>range\<close> loop: the index of the first \<^verbatim>\<open>nil\<close> entry.
\<close>

datatype error = Input_not_connected nat nat | Output_not_connected nat nat

fun itoa :: "nat \<Rightarrow> string" where
  "itoa n = (if n < 10 then [char_of (48 + n)]
             else itoa (n div 10) @ [char_of (48 + n mod 10)])"

fun Error :: "error \<Rightarrow> string" where
  "Error (Input_not_connected i k) =
     ''block '' @ itoa i @ '' input '' @ itoa k @ '' is not connected''"
| "Error (Output_not_connected i k) =
     ''block '' @ itoa i @ '' output '' @ itoa k @ '' is not connected''"

fun find_nil :: "nat \<Rightarrow> chan list \<Rightarrow> nat option" where
  "find_nil k [] = None"
| "find_nil k (c # cs) = (if c = None then Some k else find_nil (Suc k) cs)"

fun check_from :: "nat \<Rightarrow> 'st ioBlock list \<Rightarrow> error option" where
  "check_from i [] = None"
| "check_from i (b # bs) =
     (case find_nil 0 (In b) of
        Some k \<Rightarrow> Some (Input_not_connected i k)
      | None \<Rightarrow>
          (case find_nil 0 (Out b) of
             Some k \<Rightarrow> Some (Output_not_connected i k)
           | None \<Rightarrow> check_from (Suc i) bs))"

definition check :: "'st System \<Rightarrow> error option" where
  "check s = check_from 0 (blocks s)"

section \<open>Start and the worker goroutines (loops.go)\<close>

text \<open>
  What a goroutine does is recorded as the list of its actions in program order: starting a
  goroutine, a completed send or receive on an edge, a completed send or receive on the
  \<^verbatim>\<open>done\<close> channel, and a call of a block's \<^verbatim>\<open>Step\<close> with the inputs it is given.  A
  channel operation is recorded when it completes; a goroutine that stays blocked in an
  operation has performed the actions before it only.
\<close>

datatype 'st action =
    Go_worker "chan list" "chan list" "'st Block" chan
  | Send chan f64
  | Recv chan
  | Calls_Step "f64 list"
  | Send_done chan
  | Recv_done chan

text \<open>How \<^verbatim>\<open>Start\<close> ends: it returns its error result (\<open>None\<close> is \<^verbatim>\<open>nil\<close>), it panics, or
  it stays blocked for ever in an operation on a \<^verbatim>\<open>nil\<close> channel.\<close>

datatype outcome = Returned "error option" | Panicked panic | Blocked_on_nil

text \<open>The loop that sends the initial conditions.  It stops at the first initial
  condition whose indexing panics.\<close>

fun send_initials :: "'st ioBlock list \<Rightarrow> IC list \<Rightarrow> 'st action list \<times> outcome option" where
  "send_initials bs [] = ([], None)"
| "send_initials bs (ic # ics) =
     (case index bs (block ic) of
        Inl p \<Rightarrow> ([], Some (Panicked p))
      | Inr b \<Rightarrow>
          (case index (In b) (input ic) of
             Inl p \<Rightarrow> ([], Some (Panicked p))
           | Inr None \<Rightarrow> ([], Some Blocked_on_nil)
           | Inr (Some c) \<Rightarrow>
               (case send_initials bs ics of
                  (acts, r) \<Rightarrow> (Send (Some c) (val ic) # acts, r))))"

text \<open>\<^verbatim>\<open>Start\<close>: the actions of the calling goroutine, how the call ends, and the allocator
  afterwards.  \<^verbatim>\<open>Start\<close> assigns to no field of the system.\<close>

definition Start :: "'st System \<Rightarrow> nat \<Rightarrow> 'st action list \<times> outcome \<times> nat" where
  "Start s h =
     (case check s of
        Some e \<Rightarrow> ([], Returned (Some e), h)
      | None \<Rightarrow>
          (case make_chan h of
             (done, h') \<Rightarrow>
               (let spawns = map (\<lambda>b. Go_worker (In b) (Out b) (Block b) done) (blocks s)
                in case send_initials (blocks s) (initials s) of
                     (sends, Some r) \<Rightarrow> (spawns @ sends, r, h')
                   | (sends, None) \<Rightarrow>
                       (spawns @ sends @ [Recv_done done], Returned None, h'))))"







text \<open>\<^verbatim>\<open>System.Step\<close>: the result is the system afterwards and, when \<^verbatim>\<open>Start\<close> was called,
  what that call did.  The arguments \<^verbatim>\<open>in\<close> and \<^verbatim>\<open>out\<close> are not used by the body.\<close>

definition System_Step ::
  "'st System \<Rightarrow> nat \<Rightarrow> 'st System \<times> ('st action list \<times> outcome \<times> nat) option" where
  "System_Step s h = (if \<not> initialized s then (s, Some (Start s h)) else (s, None))"

section \<open>Standard blocks (blocks.go)\<close>

text \<open>\<^verbatim>\<open>Tee\<close> copies its input to its two outputs.  The worker hands \<^verbatim>\<open>Step\<close> slices of the
  lengths \<^verbatim>\<open>Inputs()\<close> and \<^verbatim>\<open>Outputs()\<close>.\<close>

definition Tee :: "unit Block" where
  "Tee = \<lparr>Inputs = 1, Outputs = 2,
           Step = (\<lambda>st x y. (st, y[0 := x ! 0, 1 := x ! 0], True)), State = ()\<rparr>"

text \<open>
  The block \<^verbatim>\<open>Stop\<close>.  A callback is known by a name of type \<open>'c\<close>; calling it is recorded.
  \<open>Stop_Step DT s x y\<close> is \<^verbatim>\<open>s.Step(x, y)\<close> with the global step size \<^verbatim>\<open>DT\<close>: the block
  afterwards, the slice \<^verbatim>\<open>out\<close> afterwards, the callbacks called, in order, and the result.
  Indexing an empty slice panics; the panic keeps the block as it was then.
\<close>

record 'c Stop =
  Time :: f64
  Callbacks :: "'c list"
  t :: f64

definition Stop_Step ::
  "f64 \<Rightarrow> 'c Stop \<Rightarrow> f64 list \<Rightarrow> f64 list \<Rightarrow>
     (panic \<times> 'c Stop) + ('c Stop \<times> f64 list \<times> 'c list \<times> bool)" where
  "Stop_Step DT s x y =
     (let s' = s\<lparr>t := fadd (t s) DT\<rparr> in
      if fge (t s') (Time s') then Inr (s', y, Callbacks s', False)
      else
        (case index x 0 of
           Inl p \<Rightarrow> Inl (p, s')
         | Inr v \<Rightarrow>
             (case assign y 0 v of
                Inl p \<Rightarrow> Inl (p, s')
              | Inr y' \<Rightarrow> Inr (s', y', [], True))))"

text \<open>
  The block driven as its worker drives it: \<^verbatim>\<open>Step\<close> is called once for each input value,
  with the output buffer the previous call left, until it returns \<^verbatim>\<open>false\<close>.  The result
  lists, for every call made, the output buffer afterwards, the callbacks called and the
  result of the call.
\<close>

fun Stop_run ::
  "f64 \<Rightarrow> 'c Stop \<Rightarrow> f64 list \<Rightarrow> f64 list \<Rightarrow> (f64 list \<times> 'c list \<times> bool) list" where
  "Stop_run DT s [] y = []"
| "Stop_run DT s (v # vs) y =
     (case Stop_Step DT s [v] y of
        Inl p \<Rightarrow> []
      | Inr (s', y', cbs, continue) \<Rightarrow>
          (y', cbs, continue) # (if continue then Stop_run DT s' vs y' else []))"

section \<open>Vocabulary of the properties\<close>

text \<open>An error names a port that is not connected: the block exists, the port exists and
  holds \<^verbatim>\<open>nil\<close>.\<close>

fun unbound_at :: "'st ioBlock list \<Rightarrow> error \<Rightarrow> bool" where
  "unbound_at bs (Input_not_connected i k) =
     (i < length bs \<and> k < length (In (bs ! i)) \<and> In (bs ! i) ! k = None)"
| "unbound_at bs (Output_not_connected i k) =
     (i < length bs \<and> k < length (Out (bs ! i)) \<and> Out (bs ! i) ! k = None)"

definition all_bound :: "'st ioBlock list \<Rightarrow> bool" where
  "all_bound bs = (\<forall>b \<in> set bs. None \<notin> set (In b) \<and> None \<notin> set (Out b))"

fun error_block :: "error \<Rightarrow> nat" where
  "error_block (Input_not_connected i k) = i"
| "error_block (Output_not_connected i k) = i"

fun shift_error :: "nat \<Rightarrow> error \<Rightarrow> error" where
  "shift_error n (Input_not_connected i k) = Input_not_connected (i - n) k"
| "shift_error n (Output_not_connected i k) = Output_not_connected (i - n) k"

text \<open>
  The ports of a system: input \<open>k\<close> and output \<open>k\<close> of block \<open>j\<close>, and the boundary ports of
  the system itself.  \<open>edge_at s p\<close> is the channel variable at port \<open>p\<close>, when the port
  exists.  \<open>dst_port\<close> and \<open>src_port\<close> are the two ports that the arguments of
  \<^verbatim>\<open>Connect\<close> address; the arguments are in range when these ports exist.
\<close>

datatype port = Block_In nat nat | Block_Out nat nat | System_In nat | System_Out nat

fun edge_at :: "'st System \<Rightarrow> port \<Rightarrow> chan option" where
  "edge_at s (Block_In j k) =
     (if j < length (blocks s) \<and> k < length (In (blocks s ! j))
      then Some (In (blocks s ! j) ! k) else None)"
| "edge_at s (Block_Out j k) =
     (if j < length (blocks s) \<and> k < length (Out (blocks s ! j))
      then Some (Out (blocks s ! j) ! k) else None)"
| "edge_at s (System_In k) = (if k < length (SIn s) then Some (SIn s ! k) else None)"
| "edge_at s (System_Out k) = (if k < length (SOut s) then Some (SOut s ! k) else None)"

definition dst_port :: "int \<Rightarrow> int \<Rightarrow> port" where
  "dst_port dst i = (if i < 0 then System_Out (nat (- i - 1)) else Block_In (nat dst) (nat i))"

definition src_port :: "int \<Rightarrow> int \<Rightarrow> port" where
  "src_port src o' = (if o' < 0 then System_In (nat (- o' - 1)) else Block_Out (nat src) (nat o'))"

definition dst_in_range :: "'st System \<Rightarrow> int \<Rightarrow> int \<Rightarrow> bool" where
  "dst_in_range s dst i = ((i < 0 \<or> 0 \<le> dst) \<and> edge_at s (dst_port dst i) \<noteq> None)"

definition src_in_range :: "'st System \<Rightarrow> int \<Rightarrow> int \<Rightarrow> bool" where
  "src_in_range s src o' = ((o' < 0 \<or> 0 \<le> src) \<and> edge_at s (src_port src o') \<noteq> None)"

text \<open>Every channel bound in the system was made before the allocator reached \<open>h\<close>.\<close>

definition allocated_below :: "'st System \<Rightarrow> nat \<Rightarrow> bool" where
  "allocated_below s h = (\<forall>p n. edge_at s p = Some (Some n) \<longrightarrow> n < h)"



text \<open>The field \<^verbatim>\<open>t\<close> of a \<^verbatim>\<open>Stop\<close> block after \<open>k\<close> calls of \<^verbatim>\<open>Step\<close>, from the value \<open>a\<close>.\<close>

fun elapsed :: "f64 \<Rightarrow> f64 \<Rightarrow> nat \<Rightarrow> f64" where
  "elapsed DT a 0 = a"
| "elapsed DT a (Suc k) = fadd (elapsed DT a k) DT"

text \<open>
  A chain of additions of \<open>d\<close>, from \<open>a\<close>, with the exponent and the significand of every sum
  written down: \<open>chain_ok T d a c\<close> checks that each entry \<open>(e, n)\<close> of \<open>c\<close> is the rounded sum
  (the sum lies in the binade of \<open>e\<close> and \<open>n\<close> is the integer nearest to it in units of
  \<open>pow2 (e - 52)\<close>, the even one at a tie) and that every sum stays below \<open>T\<close>; \<open>chain_end\<close> is
  the last sum.  \<open>default_sums\<close> lists the first 300 sums for the default \<^verbatim>\<open>DT = 0.01\<close>.
\<close>

fun chain_ok :: "rat \<Rightarrow> rat \<Rightarrow> rat \<Rightarrow> (int \<times> int) list \<Rightarrow> bool" where
  "chain_ok T d a [] = True"
| "chain_ok T d a ((e, n) # c) =
     (pow2 e \<le> a + d \<and> a + d < pow2 (e + 1) \<and> - 1022 \<le> e \<and> e \<le> 1022
      \<and> (\<bar>(a + d) / pow2 (e - 52) - of_int n\<bar> < 1 / 2
          \<or> even n \<and> \<bar>(a + d) / pow2 (e - 52) - of_int n\<bar> = 1 / 2)
      \<and> of_int n * pow2 (e - 52) < T
      \<and> chain_ok T d (of_int n * pow2 (e - 52)) c)"

fun chain_end :: "rat \<Rightarrow> (int \<times> int) list \<Rightarrow> rat" where
  "chain_end a [] = a"
| "chain_end a ((e, n) # c) = chain_end (of_int n * pow2 (e - 52)) c"

definition default_sums :: "(int \<times> int) list" where
  "default_sums =
    [(-7, 5764607523034235), (-6, 5764607523034235), (-6, 8646911284551352), (-5,
     5764607523034235), (-5, 7205759403792794), (-5, 8646911284551353), (-4,
     5044031582654956), (-4, 5764607523034235), (-4, 6485183463413514), (-4,
     7205759403792793), (-4, 7926335344172072), (-4, 8646911284551351), (-3,
     4683743612465315), (-3, 5044031582654955), (-3, 5404319552844595), (-3,
     5764607523034235), (-3, 6124895493223875), (-3, 6485183463413515), (-3,
     6845471433603155), (-3, 7205759403792795), (-3, 7566047373982435), (-3,
     7926335344172075), (-3, 8286623314361715), (-3, 8646911284551355), (-2,
     4503599627370497), (-2, 4683743612465317), (-2, 4863887597560137), (-2,
     5044031582654957), (-2, 5224175567749777), (-2, 5404319552844597), (-2,
     5584463537939417), (-2, 5764607523034237), (-2, 5944751508129057), (-2,
     6124895493223877), (-2, 6305039478318697), (-2, 6485183463413517), (-2,
     6665327448508337), (-2, 6845471433603157), (-2, 7025615418697977), (-2,
     7205759403792797), (-2, 7385903388887617), (-2, 7566047373982437), (-2,
     7746191359077257), (-2, 7926335344172077), (-2, 8106479329266897), (-2,
     8286623314361717), (-2, 8466767299456537), (-2, 8646911284551357), (-2,
     8827055269646177), (-1, 4503599627370498), (-1, 4593671619917908), (-1,
     4683743612465318), (-1, 4773815605012728), (-1, 4863887597560138), (-1,
     4953959590107548), (-1, 5044031582654958), (-1, 5134103575202368), (-1,
     5224175567749778), (-1, 5314247560297188), (-1, 5404319552844598), (-1,
     5494391545392008), (-1, 5584463537939418), (-1, 5674535530486828), (-1,
     5764607523034238), (-1, 5854679515581648), (-1, 5944751508129058), (-1,
     6034823500676468), (-1, 6124895493223878), (-1, 6214967485771288), (-1,
     6305039478318698), (-1, 6395111470866108), (-1, 6485183463413518), (-1,
     6575255455960928), (-1, 6665327448508338), (-1, 6755399441055748), (-1,
     6845471433603158), (-1, 6935543426150568), (-1, 7025615418697978), (-1,
     7115687411245388), (-1, 7205759403792798), (-1, 7295831396340208), (-1,
     7385903388887618), (-1, 7475975381435028), (-1, 7566047373982438), (-1,
     7656119366529848), (-1, 7746191359077258), (-1, 7836263351624668), (-1,
     7926335344172078), (-1, 8016407336719488), (-1, 8106479329266898), (-1,
     8196551321814308), (-1, 8286623314361718), (-1, 8376695306909128), (-1,
     8466767299456538), (-1, 8556839292003948), (-1, 8646911284551358), (-1,
     8736983277098768), (-1, 8827055269646178), (-1, 8917127262193588), (0,
     4503599627370499), (0, 4548635623644204), (0, 4593671619917909), (0, 4638707616191614),
     (0, 4683743612465319), (0, 4728779608739024), (0, 4773815605012729), (0,
     4818851601286434), (0, 4863887597560139), (0, 4908923593833844), (0, 4953959590107549),
     (0, 4998995586381254), (0, 5044031582654959), (0, 5089067578928664), (0,
     5134103575202369), (0, 5179139571476074), (0, 5224175567749779), (0, 5269211564023484),
     (0, 5314247560297189), (0, 5359283556570894), (0, 5404319552844599), (0,
     5449355549118304), (0, 5494391545392009), (0, 5539427541665714), (0, 5584463537939419),
     (0, 5629499534213124), (0, 5674535530486829), (0, 5719571526760534), (0,
     5764607523034239), (0, 5809643519307944), (0, 5854679515581649), (0, 5899715511855354),
     (0, 5944751508129059), (0, 5989787504402764), (0, 6034823500676469), (0,
     6079859496950174), (0, 6124895493223879), (0, 6169931489497584), (0, 6214967485771289),
     (0, 6260003482044994), (0, 6305039478318699), (0, 6350075474592404), (0,
     6395111470866109), (0, 6440147467139814), (0, 6485183463413519), (0, 6530219459687224),
     (0, 6575255455960929), (0, 6620291452234634), (0, 6665327448508339), (0,
     6710363444782044), (0, 6755399441055749), (0, 6800435437329454), (0, 6845471433603159),
     (0, 6890507429876864), (0, 6935543426150569), (0, 6980579422424274), (0,
     7025615418697979), (0, 7070651414971684), (0, 7115687411245389), (0, 7160723407519094),
     (0, 7205759403792799), (0, 7250795400066504), (0, 7295831396340209), (0,
     7340867392613914), (0, 7385903388887619), (0, 7430939385161324), (0, 7475975381435029),
     (0, 7521011377708734), (0, 7566047373982439), (0, 7611083370256144), (0,
     7656119366529849), (0, 7701155362803554), (0, 7746191359077259), (0, 7791227355350964),
     (0, 7836263351624669), (0, 7881299347898374), (0, 7926335344172079), (0,
     7971371340445784), (0, 8016407336719489), (0, 8061443332993194), (0, 8106479329266899),
     (0, 8151515325540604), (0, 8196551321814309), (0, 8241587318088014), (0,
     8286623314361719), (0, 8331659310635424), (0, 8376695306909129), (0, 8421731303182834),
     (0, 8466767299456539), (0, 8511803295730244), (0, 8556839292003949), (0,
     8601875288277654), (0, 8646911284551359), (0, 8691947280825064), (0, 8736983277098769),
     (0, 8782019273372474), (0, 8827055269646179), (0, 8872091265919884), (0,
     8917127262193589), (0, 8962163258467294), (1, 4503599627370499), (1, 4526117625507351),
     (1, 4548635623644203), (1, 4571153621781055), (1, 4593671619917907), (1,
     4616189618054759), (1, 4638707616191611), (1, 4661225614328463), (1, 4683743612465315),
     (1, 4706261610602167), (1, 4728779608739019), (1, 4751297606875871), (1,
     4773815605012723), (1, 4796333603149575), (1, 4818851601286427), (1, 4841369599423279),
     (1, 4863887597560131), (1, 4886405595696983), (1, 4908923593833835), (1,
     4931441591970687), (1, 4953959590107539), (1, 4976477588244391), (1, 4998995586381243),
     (1, 5021513584518095), (1, 5044031582654947), (1, 5066549580791799), (1,
     5089067578928651), (1, 5111585577065503), (1, 5134103575202355), (1, 5156621573339207),
     (1, 5179139571476059), (1, 5201657569612911), (1, 5224175567749763), (1,
     5246693565886615), (1, 5269211564023467), (1, 5291729562160319), (1, 5314247560297171),
     (1, 5336765558434023), (1, 5359283556570875), (1, 5381801554707727), (1,
     5404319552844579), (1, 5426837550981431), (1, 5449355549118283), (1, 5471873547255135),
     (1, 5494391545391987), (1, 5516909543528839), (1, 5539427541665691), (1,
     5561945539802543), (1, 5584463537939395), (1, 5606981536076247), (1, 5629499534213099),
     (1, 5652017532349951), (1, 5674535530486803), (1, 5697053528623655), (1,
     5719571526760507), (1, 5742089524897359), (1, 5764607523034211), (1, 5787125521171063),
     (1, 5809643519307915), (1, 5832161517444767), (1, 5854679515581619), (1,
     5877197513718471), (1, 5899715511855323), (1, 5922233509992175), (1, 5944751508129027),
     (1, 5967269506265879), (1, 5989787504402731), (1, 6012305502539583), (1,
     6034823500676435), (1, 6057341498813287), (1, 6079859496950139), (1, 6102377495086991),
     (1, 6124895493223843), (1, 6147413491360695), (1, 6169931489497547), (1,
     6192449487634399), (1, 6214967485771251), (1, 6237485483908103), (1, 6260003482044955),
     (1, 6282521480181807), (1, 6305039478318659), (1, 6327557476455511), (1,
     6350075474592363), (1, 6372593472729215), (1, 6395111470866067), (1, 6417629469002919),
     (1, 6440147467139771), (1, 6462665465276623), (1, 6485183463413475), (1,
     6507701461550327), (1, 6530219459687179), (1, 6552737457824031), (1, 6575255455960883),
     (1, 6597773454097735), (1, 6620291452234587), (1, 6642809450371439), (1,
     6665327448508291), (1, 6687845446645143), (1, 6710363444781995), (1, 6732881442918847),
     (1, 6755399441055699)]"

section \<open>Example systems\<close>


definition unconnected :: "unit System" where
  "unconnected = \<lparr>SIn = [], SOut = [],
     blocks = [\<lparr>Block = Tee, In = [None], Out = [None, None]\<rparr>],
     initials = [], initialized = False\<rparr>"

definition two_tees :: "unit System" where
  "two_tees = \<lparr>SIn = [], SOut = [],
     blocks = [\<lparr>Block = Tee, In = [None], Out = [None, None]\<rparr>,
               \<lparr>Block = Tee, In = [None], Out = [None, None]\<rparr>],
     initials = [], initialized = False\<rparr>"



declare itoa.simps [simp del]

section \<open>Validation\<close>

lemma find_nil_None: "find_nil k cs = None \<longleftrightarrow> None \<notin> set cs"
  by (induction cs arbitrary: k) auto

lemma find_nil_Some:
  "find_nil k cs = Some j \<Longrightarrow> k \<le> j \<and> j - k < length cs \<and> cs ! (j - k) = None"
proof (induction cs arbitrary: k)
  case Nil
  then show ?case by simp
next
  case (Cons c cs)
  show ?case
  proof (cases "c = None")
    case True
    with Cons.prems show ?thesis by simp
  next
    case False
    with Cons.prems have "find_nil (Suc k) cs = Some j" by simp
    from Cons.IH[OF this] have "Suc k \<le> j" "j - Suc k < length cs" "cs ! (j - Suc k) = None"
      by auto
    then show ?thesis by (simp add: Suc_diff_le nth_Cons')
  qed
qed

lemma find_nil_Some_mem: "find_nil k cs = Some j \<Longrightarrow> None \<in> set cs"
  using find_nil_None[of k cs] by auto

lemma check_from_None: "check_from i bs = None \<longleftrightarrow> all_bound bs"
  by (induction bs arbitrary: i)
     (auto simp: all_bound_def find_nil_None split: option.splits dest: find_nil_Some_mem)

lemma check_from_Some:
  "check_from i bs = Some e \<Longrightarrow> i \<le> error_block e \<and> unbound_at bs (shift_error i e)"
proof (induction bs arbitrary: i)
  case Nil
  then show ?case by simp
next
  case (Cons b bs)
  show ?case
  proof (cases "find_nil 0 (In b)")
    case (Some k)
    with Cons.prems have e: "e = Input_not_connected i k" by simp
    from find_nil_Some[OF Some] show ?thesis by (simp add: e)
  next
    case None
    note inNone = this
    show ?thesis
    proof (cases "find_nil 0 (Out b)")
      case (Some k)
      with Cons.prems inNone have e: "e = Output_not_connected i k" by simp
      from find_nil_Some[OF Some] show ?thesis by (simp add: e)
    next
      case None
      with Cons.prems inNone have "check_from (Suc i) bs = Some e" by simp
      from Cons.IH[OF this] have le: "Suc i \<le> error_block e"
        and ub: "unbound_at bs (shift_error (Suc i) e)" by auto
      show ?thesis
      proof (cases e)
        case (Input_not_connected j k)
        with le ub show ?thesis by (auto simp: nth_Cons' Suc_diff_le)
      next
        case (Output_not_connected j k)
        with le ub show ?thesis by (auto simp: nth_Cons' Suc_diff_le)
      qed
    qed
  qed
qed

lemma check_Some_unbound: "check s = Some e \<Longrightarrow> unbound_at (blocks s) e"
  using check_from_Some[of 0 "blocks s" e] by (cases e) (auto simp: check_def)

lemma check_None_iff: "check s = None \<longleftrightarrow> all_bound (blocks s)"
  by (simp add: check_def check_from_None)

lemma Start_check_fails: "check s = Some e \<Longrightarrow> Start s h = ([], Returned (Some e), h)"
  by (simp add: Start_def)


text \<open>
  C3.  \<^verbatim>\<open>check\<close> returns \<^verbatim>\<open>nil\<close> exactly when every input port and every output port of every
  registered block holds a channel.  Otherwise it returns an error that names a block and a
  port of it that is not connected, and \<^verbatim>\<open>Start\<close> returns that error with no action done:
  no worker started, no initial condition sent, no channel made.
\<close>

theorem check_validates:
  "(check s = None \<longleftrightarrow>
      (\<forall>b \<in> set (blocks s). None \<notin> set (In b) \<and> None \<notin> set (Out b)))
   \<and> (\<forall>e. check s = Some e \<longrightarrow>
          unbound_at (blocks s) e \<and> Start s h = ([], Returned (Some e), h))"
  using check_None_iff[of s] check_Some_unbound[of s] Start_check_fails[of s _ h]
  by (auto simp: all_bound_def)

lemma Error_example:
  "Error (Input_not_connected 0 0) = ''block 0 input 0 is not connected''"
  by code_simp

theorem check_validates_witness:
  "check unconnected = Some (Input_not_connected 0 0)
   \<and> unbound_at (blocks unconnected) (Input_not_connected 0 0)
   \<and> Start unconnected 5 = ([], Returned (Some (Input_not_connected 0 0)), 5)
   \<and> Error (Input_not_connected 0 0) = ''block 0 input 0 is not connected''"
proof -
  have "check unconnected = Some (Input_not_connected 0 0)"
    by (simp add: check_def unconnected_def)
  with check_validates[of unconnected 5] Error_example show ?thesis by simp
qed

section \<open>Add\<close>





section \<open>Connect\<close>

lemma connect_dst_Inr_iff:
  "(\<exists>s1. connect_dst s dst i c = Inr s1) \<longleftrightarrow> dst_in_range s dst i"
  by (auto simp: connect_dst_def dst_in_range_def dst_port_def bind_In_def assign_def index_def
      split: sum.splits if_splits)

lemma connect_src_Inr_iff:
  "(\<exists>s1. connect_src s src o' c = Inr s1) \<longleftrightarrow> src_in_range s src o'"
  by (auto simp: connect_src_def src_in_range_def src_port_def bind_Out_def assign_def index_def
      split: sum.splits if_splits)

lemma connect_dst_edges:
  assumes "connect_dst s dst i c = Inr s1"
  shows "edge_at s1 p = (if p = dst_port dst i then Some c else edge_at s p)"
  using assms
  by (cases p)
     (auto simp: connect_dst_def dst_port_def bind_In_def assign_def index_def nth_list_update
       split: sum.splits if_splits)

lemma connect_src_edges:
  assumes "connect_src s src o' c = Inr s1"
  shows "edge_at s1 p = (if p = src_port src o' then Some c else edge_at s p)"
  using assms
  by (cases p)
     (auto simp: connect_src_def src_port_def bind_Out_def assign_def index_def nth_list_update
       split: sum.splits if_splits)

lemma connect_dst_frame:
  assumes "connect_dst s dst i c = Inr s1"
  shows "map Block (blocks s1) = map Block (blocks s) \<and> initials s1 = initials s
         \<and> initialized s1 = initialized s"
  using assms
  by (auto simp: connect_dst_def bind_In_def assign_def index_def map_update list_update_same_conv
       split: sum.splits if_splits)

lemma connect_src_frame:
  assumes "connect_src s src o' c = Inr s1"
  shows "map Block (blocks s1) = map Block (blocks s) \<and> initials s1 = initials s
         \<and> initialized s1 = initialized s"
  using assms
  by (auto simp: connect_src_def bind_Out_def assign_def index_def map_update list_update_same_conv
       split: sum.splits if_splits)

lemma dst_src_port_neq: "dst_port dst i \<noteq> src_port src o'"
  by (simp add: dst_port_def src_port_def)

lemma Connect_Inr_iff:
  "(\<exists>r. Connect s h src dst o' i = Inr r) \<longleftrightarrow> dst_in_range s dst i \<and> src_in_range s src o'"
proof
  assume "\<exists>r. Connect s h src dst o' i = Inr r"
  then obtain s1 s2 where 1: "connect_dst s dst i (Some h) = Inr s1"
    and 2: "connect_src s1 src o' (Some h) = Inr s2"
    by (auto simp: Connect_def make_chan_def split: sum.splits)
  from 1 have d: "dst_in_range s dst i" using connect_dst_Inr_iff by blast
  from 2 have "src_in_range s1 src o'" using connect_src_Inr_iff by blast
  then have "src_in_range s src o'"
    using connect_dst_edges[OF 1, of "src_port src o'"] dst_src_port_neq[of dst i src o']
    by (auto simp: src_in_range_def)
  with d show "dst_in_range s dst i \<and> src_in_range s src o'" ..
next
  assume a: "dst_in_range s dst i \<and> src_in_range s src o'"
  then obtain s1 where 1: "connect_dst s dst i (Some h) = Inr s1"
    using connect_dst_Inr_iff by blast
  from a have "src_in_range s1 src o'"
    using connect_dst_edges[OF 1, of "src_port src o'"] dst_src_port_neq[of dst i src o']
    by (auto simp: src_in_range_def)
  then obtain s2 where 2: "connect_src s1 src o' (Some h) = Inr s2"
    using connect_src_Inr_iff by blast
  from 1 2 show "\<exists>r. Connect s h src dst o' i = Inr r"
    by (simp add: Connect_def make_chan_def)
qed

text \<open>
  C7.  With arguments in range, \<^verbatim>\<open>Connect(src, dst, o, i)\<close> makes one channel and binds it
  at input \<open>i\<close> of block \<open>dst\<close> and at output \<open>o\<close> of block \<open>src\<close>; a negative \<open>i\<close> addresses
  the boundary output \<open>- i - 1\<close> and a negative \<open>o\<close> the boundary input \<open>- o - 1\<close> of the
  system instead.  Whatever the two ports held before is overwritten.  Every other port,
  the blocks, the initial conditions and the flag \<^verbatim>\<open>initialized\<close> stay as they were.  The
  channel is new: no port of the system held it.
\<close>

theorem Connect_binds_fresh_edge:
  assumes "dst_in_range s dst i" and "src_in_range s src o'"
  shows "\<exists>s'. Connect s h src dst o' i = Inr (s', Suc h)
           \<and> edge_at s' (dst_port dst i) = Some (Some h)
           \<and> edge_at s' (src_port src o') = Some (Some h)
           \<and> (\<forall>p. p \<noteq> dst_port dst i \<and> p \<noteq> src_port src o' \<longrightarrow> edge_at s' p = edge_at s p)
           \<and> map Block (blocks s') = map Block (blocks s)
           \<and> initials s' = initials s \<and> initialized s' = initialized s
           \<and> (allocated_below s h \<longrightarrow>
                (\<forall>p. edge_at s p \<noteq> Some (Some h)) \<and> allocated_below s' (Suc h))"
proof -
  from assms obtain r where "Connect s h src dst o' i = Inr r"
    using Connect_Inr_iff by blast
  then obtain s1 s2 where 1: "connect_dst s dst i (Some h) = Inr s1"
    and 2: "connect_src s1 src o' (Some h) = Inr s2"
    and r: "Connect s h src dst o' i = Inr (s2, Suc h)"
    by (auto simp: Connect_def make_chan_def split: sum.splits)
  have e: "edge_at s2 p = (if p = src_port src o' \<or> p = dst_port dst i then Some (Some h)
                           else edge_at s p)" for p
    using connect_dst_edges[OF 1, of p] connect_src_edges[OF 2, of p] by auto
  have fresh: "\<forall>p. edge_at s p \<noteq> Some (Some h)" if "allocated_below s h"
    using that unfolding allocated_below_def by blast
  have inv: "allocated_below s2 (Suc h)" if "allocated_below s h"
    unfolding allocated_below_def
  proof (intro allI impI)
    fix p n assume "edge_at s2 p = Some (Some n)"
    then have "n = h \<or> edge_at s p = Some (Some n)" by (auto simp: e split: if_splits)
    with that show "n < Suc h" unfolding allocated_below_def by (auto simp: less_Suc_eq)
  qed
  from connect_dst_frame[OF 1] connect_src_frame[OF 2]
  have fr: "map Block (blocks s2) = map Block (blocks s) \<and> initials s2 = initials s
            \<and> initialized s2 = initialized s" by simp
  show ?thesis
    using r e fresh inv fr by (intro exI[of _ s2]) simp
qed

theorem Connect_binds_fresh_edge_witness:
  "dst_in_range two_tees 1 0 \<and> src_in_range two_tees 0 1
   \<and> (\<exists>s'. Connect two_tees 0 0 1 1 0 = Inr (s', 1)
          \<and> edge_at s' (Block_In 1 0) = Some (Some 0)
          \<and> edge_at s' (Block_Out 0 1) = Some (Some 0)
          \<and> edge_at s' (Block_Out 0 0) = Some None
          \<and> edge_at s' (Block_In 0 0) = Some None)"
proof -
  have r: "dst_in_range two_tees 1 0" "src_in_range two_tees 0 1"
    by (simp_all add: dst_in_range_def src_in_range_def dst_port_def src_port_def two_tees_def)
  have e: "edge_at two_tees (Block_Out 0 0) = Some None"
    "edge_at two_tees (Block_In 0 0) = Some None"
    by (simp_all add: two_tees_def)
  have p: "dst_port 1 0 = Block_In 1 0" "src_port 0 1 = Block_Out 0 1"
    by (simp_all add: dst_port_def src_port_def)
  from Connect_binds_fresh_edge[OF r, of 0] obtain s' where
    c: "Connect two_tees 0 0 1 1 0 = Inr (s', Suc 0)"
    and b: "edge_at s' (dst_port 1 0) = Some (Some 0)" "edge_at s' (src_port 0 1) = Some (Some 0)"
    and f: "\<forall>p. p \<noteq> dst_port 1 0 \<and> p \<noteq> src_port 0 1 \<longrightarrow> edge_at s' p = edge_at two_tees p"
    by blast
  have "Block_Out 0 0 \<noteq> dst_port 1 0 \<and> Block_Out 0 0 \<noteq> src_port 0 1"
    and "Block_In 0 0 \<noteq> dst_port 1 0 \<and> Block_In 0 0 \<noteq> src_port 0 1"
    by (simp_all add: p)
  with f have "edge_at s' (Block_Out 0 0) = edge_at two_tees (Block_Out 0 0)"
    and "edge_at s' (Block_In 0 0) = edge_at two_tees (Block_In 0 0)"
    by blast+
  with e have "edge_at s' (Block_Out 0 0) = Some None" "edge_at s' (Block_In 0 0) = Some None"
    by simp_all
  with c b[unfolded p] have "Connect two_tees 0 0 1 1 0 = Inr (s', 1)
          \<and> edge_at s' (Block_In 1 0) = Some (Some 0)
          \<and> edge_at s' (Block_Out 0 1) = Some (Some 0)
          \<and> edge_at s' (Block_Out 0 0) = Some None
          \<and> edge_at s' (Block_In 0 0) = Some None" by simp
  then have "\<exists>s'. Connect two_tees 0 0 1 1 0 = Inr (s', 1)
          \<and> edge_at s' (Block_In 1 0) = Some (Some 0)
          \<and> edge_at s' (Block_Out 0 1) = Some (Some 0)
          \<and> edge_at s' (Block_Out 0 0) = Some None
          \<and> edge_at s' (Block_In 0 0) = Some None" ..
  with r show ?thesis by blast
qed

section \<open>Start\<close>









section \<open>Range checks\<close>




section \<open>System.Step\<close>

text \<open>
  C4.  No statement assigns the field \<^verbatim>\<open>initialized\<close>, so \<^verbatim>\<open>Step\<close> calls \<^verbatim>\<open>Start\<close> each time
  it is called.  On the system with one unconnected \<^verbatim>\<open>Tee\<close>, two calls of \<^verbatim>\<open>Step\<close> in a row
  both run \<^verbatim>\<open>Start\<close> (which returns the validation error both times).
\<close>

theorem System_Step_starts_again:
  "System_Step unconnected 0
     = (unconnected, Some ([], Returned (Some (Input_not_connected 0 0)), 0))
   \<and> System_Step (fst (System_Step unconnected 0)) 0
     = (unconnected, Some ([], Returned (Some (Input_not_connected 0 0)), 0))"
  by (simp add: System_Step_def unconnected_def Start_def check_def)

lemma System_Step_never_initialized:
  "initialized (fst (System_Step s h)) = initialized s"
  by (simp add: System_Step_def)

section \<open>The worker\<close>












section \<open>Rounding\<close>

lemma pow2_powi: "pow2 k = 2 powi k"
  by (simp add: pow2_def power_int_def inverse_eq_divide power_one_over)

lemma pow2_pos: "0 < pow2 k"
  by (simp add: pow2_powi)

lemma pow2_strict_mono: "a < b \<Longrightarrow> pow2 a < pow2 b"
  by (simp add: pow2_powi power_int_strict_increasing)

lemma pow2_mono: "a \<le> b \<Longrightarrow> pow2 a \<le> pow2 b"
  by (simp add: pow2_powi power_int_increasing)

lemma pow2_diff_nat: "pow2 (int a - int b) = 2 ^ a / 2 ^ b"
  by (simp add: pow2_powi power_int_diff)

lemma ilog2_bounds:
  assumes "0 < x"
  shows "pow2 (ilog2 x) \<le> x \<and> x < pow2 (ilog2 x + 1)"
proof -
  obtain p q where pq: "quotient_of x = (p, q)" by (cases "quotient_of x")
  from quotient_of_denom_pos[OF pq] have q: "0 < q" .
  from quotient_of_div[OF pq] have x: "x = of_int p / of_int q" .
  with assms q have p: "0 < p" by (simp add: zero_less_divide_iff)
  define bp where "bp = nat (bitlen p)"
  define bq where "bq = nat (bitlen q)"
  have "nat (bitlen p - 1) = bp - 1" "nat (bitlen q - 1) = bq - 1"
    unfolding bp_def bq_def by linarith+
  with bitlen_bounds[OF p] bitlen_bounds[OF q]
  have pb: "2 ^ (bp - 1) \<le> p" "p < 2 ^ bp" and qb: "2 ^ (bq - 1) \<le> q" "q < 2 ^ bq"
    by (simp_all add: bp_def bq_def)
  from pb p have bp1: "1 \<le> bp" by (cases bp) auto
  from qb q have bq1: "1 \<le> bq" by (cases bq) auto
  define d where "d = bitlen p - bitlen q"
  have d: "d = int bp - int bq" using bitlen_nonneg[of p] bitlen_nonneg[of q]
    by (simp add: d_def bp_def bq_def)
  have qr: "(0::rat) < of_int q" using q by simp
  have up: "x < pow2 (d + 1)"
  proof -
    have "of_int p < (2::rat) ^ bp" using pb(2) by (metis of_int_less_iff of_int_numeral of_int_power)
    moreover have "(2::rat) ^ (bq - 1) \<le> of_int q" using qb(1)
      by (metis of_int_le_iff of_int_numeral of_int_power)
    ultimately have "x < 2 ^ bp / 2 ^ (bq - 1)"
      unfolding x using p by (intro frac_less) auto
    also have "\<dots> = pow2 (int bp - int (bq - 1))" by (simp add: pow2_diff_nat)
    also have "int bp - int (bq - 1) = d + 1" using bq1 by (simp add: d)
    finally show ?thesis .
  qed
  have lo: "pow2 (d - 1) < x"
  proof -
    have "(2::rat) ^ (bp - 1) \<le> of_int p" using pb(1)
      by (metis of_int_le_iff of_int_numeral of_int_power)
    moreover have "of_int q < (2::rat) ^ bq" using qb(2)
      by (metis of_int_less_iff of_int_numeral of_int_power)
    ultimately have "2 ^ (bp - 1) / 2 ^ bq < x"
      unfolding x using qr by (intro frac_less2) (auto simp: less_imp_le)
    moreover have "(2::rat) ^ (bp - 1) / 2 ^ bq = pow2 (int (bp - 1) - int bq)"
      by (simp add: pow2_diff_nat)
    moreover have "int (bp - 1) - int bq = d - 1" using bp1 by (simp add: d)
    ultimately show ?thesis by simp
  qed
  show ?thesis
  proof (cases "pow2 d \<le> x")
    case True
    then have "ilog2 x = d" by (simp add: ilog2_def pq d_def)
    with True up show ?thesis by simp
  next
    case False
    then have "ilog2 x = d - 1" by (simp add: ilog2_def pq d_def)
    with False lo show ?thesis by simp
  qed
qed

lemma ilog2_unique:
  assumes "pow2 e \<le> x" and "x < pow2 (e + 1)"
  shows "ilog2 x = e"
proof -
  from assms(1) pow2_pos[of e] have "0 < x" by simp
  from ilog2_bounds[OF this] have b: "pow2 (ilog2 x) \<le> x" "x < pow2 (ilog2 x + 1)" by auto
  have "ilog2 x < e + 1"
  proof (rule ccontr)
    assume "\<not> ilog2 x < e + 1"
    then have "pow2 (e + 1) \<le> pow2 (ilog2 x)" by (intro pow2_mono) simp
    with b(1) assms(2) show False by simp
  qed
  moreover have "e < ilog2 x + 1"
  proof (rule ccontr)
    assume "\<not> e < ilog2 x + 1"
    then have "pow2 (ilog2 x + 1) \<le> pow2 e" by (intro pow2_mono) simp
    with b(2) assms(1) show False by simp
  qed
  ultimately show ?thesis by simp
qed

lemma rne_bounds: "of_int (rne x) \<le> x + 1 / 2 \<and> x - 1 / 2 \<le> of_int (rne x)"
  unfolding rne_def Let_def by (auto; linarith)

lemma fadd_Fin_normal:
  assumes "pow2 e \<le> a + b" and "a + b < pow2 (e + 1)" and "- 1022 \<le> e" and "e \<le> 1022"
  shows "fadd (Fin a) (Fin b) = Fin (of_int (rne ((a + b) / pow2 (e - 52))) * pow2 (e - 52))"
proof -
  let ?x = "a + b"
  let ?q = "pow2 (e - 52)"
  let ?r = "of_int (rne (?x / ?q)) * ?q"
  from assms(1) pow2_pos[of e] have x: "0 < ?x" by simp
  have il: "ilog2 \<bar>?x\<bar> = e" using x assms(1,2) by (simp add: ilog2_unique)
  have q: "0 < ?q" by (rule pow2_pos)
  have "of_int (rne (?x / ?q)) \<le> ?x / ?q + 1 / 2" using rne_bounds by blast
  then have "?r \<le> (?x / ?q + 1 / 2) * ?q" using q by (simp add: mult_right_mono less_imp_le)
  also have "\<dots> = ?x + ?q / 2" using q by (simp add: field_simps)
  also have "\<dots> < pow2 (e + 1) + pow2 (e - 52)" using assms(2) q by simp
  also have "\<dots> \<le> pow2 1023 + pow2 1023"
    using assms(4) by (intro add_mono pow2_mono) simp_all
  also have "\<dots> = pow2 1024" by (simp add: pow2_def)
  finally have "\<not> pow2 1024 \<le> ?r" by simp
  moreover from assms(3) have "max e (- 1022) = e" by simp
  ultimately show ?thesis using x il
    by (simp add: round64_def Let_def)
qed

lemma rne_nearest:
  assumes "\<bar>x - of_int n\<bar> < 1 / 2"
  shows "rne x = n"
proof -
  from assms have "of_int n - 1 / 2 < x" "x < of_int n + 1 / 2" by linarith+
  show ?thesis
  proof (cases "of_int n \<le> x")
    case True
    with \<open>x < of_int n + 1 / 2\<close> have "\<lfloor>x\<rfloor> = n" by (intro floor_unique) simp_all
    with \<open>x < of_int n + 1 / 2\<close> show ?thesis by (simp add: rne_def Let_def)
  next
    case False
    with \<open>of_int n - 1 / 2 < x\<close> have "\<lfloor>x\<rfloor> = n - 1" by (intro floor_unique) simp_all
    with \<open>of_int n - 1 / 2 < x\<close> show ?thesis by (simp add: rne_def Let_def)
  qed
qed

lemma rne_tie_down:
  assumes "x = of_int n + 1 / 2" and "even n"
  shows "rne x = n"
proof -
  from assms(1) have "\<lfloor>x\<rfloor> = n" by (intro floor_unique) simp_all
  with assms show ?thesis by (simp add: rne_def Let_def)
qed

lemma rne_tie_up:
  assumes "x = of_int n - 1 / 2" and "even n"
  shows "rne x = n"
proof -
  from assms(1) have "\<lfloor>x\<rfloor> = n - 1" by (intro floor_unique) simp_all
  with assms show ?thesis by (simp add: rne_def Let_def)
qed

lemma fadd_Fin_nearest:
  assumes "pow2 e \<le> a + b" and "a + b < pow2 (e + 1)" and "- 1022 \<le> e" and "e \<le> 1022"
    and "\<bar>(a + b) / pow2 (e - 52) - of_int n\<bar> < 1 / 2"
  shows "fadd (Fin a) (Fin b) = Fin (of_int n * pow2 (e - 52))"
  using fadd_Fin_normal[OF assms(1-4)] rne_nearest[OF assms(5)] by simp

lemma fadd_Fin_tie:
  assumes "pow2 e \<le> a + b" and "a + b < pow2 (e + 1)" and "- 1022 \<le> e" and "e \<le> 1022"
    and "(a + b) / pow2 (e - 52) = of_int n + 1 / 2 \<or> (a + b) / pow2 (e - 52) = of_int n - 1 / 2"
    and "even n"
  shows "fadd (Fin a) (Fin b) = Fin (of_int n * pow2 (e - 52))"
  using fadd_Fin_normal[OF assms(1-4)] rne_tie_down[OF _ assms(6)] rne_tie_up[OF _ assms(6)]
    assms(5) by auto

lemma round64_nearest:
  assumes "pow2 e \<le> x" and "x < pow2 (e + 1)" and "- 1022 \<le> e" and "e \<le> 1022"
    and "\<bar>x / pow2 (e - 52) - of_int n\<bar> < 1 / 2"
  shows "round64 x = Fin (of_int n * pow2 (e - 52))"
  using fadd_Fin_nearest[of e 0 x n] assms by simp

text \<open>The constants \<^verbatim>\<open>0.1\<close> and \<^verbatim>\<open>0.01\<close> as \<^verbatim>\<open>float64\<close> values.\<close>

lemma round64_tenth: "round64 (1 / 10) = Fin (3602879701896397 / 36028797018963968)"
  by (rule trans, rule round64_nearest[where e = "-4" and n = "7205759403792794"]) (simp_all add: pow2_def)

lemma round64_hundredth: "round64 (1 / 100) = Fin (5764607523034235 / 576460752303423488)"
  by (rule trans, rule round64_nearest[where e = "-7" and n = "5764607523034235"]) (simp_all add: pow2_def)

lemma chain_ok_step:
  assumes "chain_ok T d a ((e, n) # c)"
  shows "fadd (Fin a) (Fin d) = Fin (of_int n * pow2 (e - 52))"
proof -
  from assms have b: "pow2 e \<le> a + d" "a + d < pow2 (e + 1)" "- 1022 \<le> e" "e \<le> 1022"
    and r: "\<bar>(a + d) / pow2 (e - 52) - of_int n\<bar> < 1 / 2
          \<or> even n \<and> \<bar>(a + d) / pow2 (e - 52) - of_int n\<bar> = 1 / 2" by simp_all
  from r show ?thesis
  proof
    assume "\<bar>(a + d) / pow2 (e - 52) - of_int n\<bar> < 1 / 2"
    from fadd_Fin_nearest[OF b this] show ?thesis .
  next
    assume t: "even n \<and> \<bar>(a + d) / pow2 (e - 52) - of_int n\<bar> = 1 / 2"
    then have "(a + d) / pow2 (e - 52) = of_int n + 1 / 2
               \<or> (a + d) / pow2 (e - 52) = of_int n - 1 / 2" by linarith
    from fadd_Fin_tie[OF b this] t show ?thesis by simp
  qed
qed

section \<open>The Stop block\<close>

lemma elapsed_shift: "elapsed DT (fadd a DT) k = elapsed DT a (Suc k)"
  by (induction k) simp_all

lemma Stop_Step_stop:
  assumes "fge (fadd (t s) DT) (Time s)"
  shows "Stop_Step DT s x y = Inr (s\<lparr>t := fadd (t s) DT\<rparr>, y, Callbacks s, False)"
  using assms by (simp add: Stop_Step_def Let_def)

lemma Stop_Step_continue:
  assumes "\<not> fge (fadd (t s) DT) (Time s)"
  shows "Stop_Step DT s [v] [y] = Inr (s\<lparr>t := fadd (t s) DT\<rparr>, [v], [], True)"
  using assms by (simp add: Stop_Step_def Let_def index_def assign_def)

lemma Stop_run_first_reach:
  assumes "1 \<le> n" and "n \<le> length vs"
    and "\<forall>k. 1 \<le> k \<and> k < n \<longrightarrow> \<not> fge (elapsed DT (t s) k) (Time s)"
    and "fge (elapsed DT (t s) n) (Time s)"
  shows "Stop_run DT s vs [y]
           = map (\<lambda>v. ([v], [], True)) (take (n - 1) vs)
               @ [(if n = 1 then [y] else [vs ! (n - 2)], Callbacks s, False)]"
  using assms
proof (induction n arbitrary: s vs y)
  case 0
  then show ?case by simp
next
  case (Suc m)
  from Suc.prems(2) obtain v vs' where vs: "vs = v # vs'" and len: "m \<le> length vs'"
    by (cases vs) auto
  show ?case
  proof (cases m)
    case 0
    with Suc.prems(4) have "fge (fadd (t s) DT) (Time s)" by simp
    from Stop_Step_stop[OF this] show ?thesis by (simp add: vs 0)
  next
    case (Suc j)
    from Suc.prems(3) have "1 \<le> (1::nat) \<and> 1 < Suc m \<longrightarrow> \<not> fge (elapsed DT (t s) 1) (Time s)"
      by blast
    then have c: "\<not> fge (fadd (t s) DT) (Time s)" using Suc by simp
    let ?s' = "s\<lparr>t := fadd (t s) DT\<rparr>"
    have 1: "1 \<le> m" using Suc by simp
    have 3: "\<forall>k. 1 \<le> k \<and> k < m \<longrightarrow> \<not> fge (elapsed DT (t ?s') k) (Time ?s')"
    proof (intro allI impI)
      fix k assume "1 \<le> k \<and> k < m"
      then have "1 \<le> Suc k \<and> Suc k < Suc m" by simp
      with Suc.prems(3) have "\<not> fge (elapsed DT (t s) (Suc k)) (Time s)" by blast
      then show "\<not> fge (elapsed DT (t ?s') k) (Time ?s')"
        by (simp add: elapsed_shift del: elapsed.simps)
    qed
    have 4: "fge (elapsed DT (t ?s') m) (Time ?s')"
      using Suc.prems(4) by (simp add: elapsed_shift del: elapsed.simps)
    from Suc.IH[OF 1 len 3 4, of v]
    have ih: "Stop_run DT ?s' vs' [v]
           = map (\<lambda>v. ([v], [], True)) (take (m - 1) vs')
               @ [(if m = 1 then [v] else [vs' ! (m - 2)], Callbacks s, False)]" by simp
    have last: "(if m = 1 then [v] else [vs' ! (m - 2)]) = [vs ! (Suc m - 2)]"
      using Suc by (cases j) (simp_all add: vs)
    from Stop_Step_continue[OF c] ih show ?thesis
      by (simp add: vs Suc last[unfolded vs Suc])
  qed
qed

lemma chain_ok_elapsed:
  assumes "chain_ok T d a c"
  shows "elapsed (Fin d) (Fin a) (length c) = Fin (chain_end a c)
         \<and> (\<forall>k. 1 \<le> k \<and> k \<le> length c \<longrightarrow> \<not> fge (elapsed (Fin d) (Fin a) k) (Fin T))"
  using assms
proof (induction c arbitrary: a)
  case Nil
  then show ?case by simp
next
  case (Cons en c)
  obtain e n where en: "en = (e, n)" by (cases en)
  let ?b = "of_int n * pow2 (e - 52)"
  from Cons.prems have st: "fadd (Fin a) (Fin d) = Fin ?b"
    unfolding en by (rule chain_ok_step)
  from Cons.prems have lt: "?b < T" and rest: "chain_ok T d ?b c" by (simp_all add: en)
  from Cons.IH[OF rest] have ih1: "elapsed (Fin d) (Fin ?b) (length c) = Fin (chain_end ?b c)"
    and ih2: "\<forall>k. 1 \<le> k \<and> k \<le> length c \<longrightarrow> \<not> fge (elapsed (Fin d) (Fin ?b) k) (Fin T)"
    by auto
  have sh: "elapsed (Fin d) (Fin a) (Suc k) = elapsed (Fin d) (Fin ?b) k" for k
    using elapsed_shift[of "Fin d" "Fin a" k] st by (simp del: elapsed.simps fadd.simps)
  have 1: "elapsed (Fin d) (Fin a) (length (en # c)) = Fin (chain_end a (en # c))"
    using ih1 sh[of "length c"] by (simp add: en del: elapsed.simps)
  have 2: "\<not> fge (elapsed (Fin d) (Fin a) k) (Fin T)" if k: "1 \<le> k \<and> k \<le> length (en # c)" for k
  proof (cases k)
    case 0
    with k show ?thesis by simp
  next
    case (Suc j)
    show ?thesis
    proof (cases j)
      case 0
      with Suc sh[of 0] lt show ?thesis by (simp del: fadd.simps)
    next
      case (Suc i)
      with \<open>k = Suc j\<close> k have "1 \<le> j \<and> j \<le> length c" by simp
      with ih2 have "\<not> fge (elapsed (Fin d) (Fin ?b) j) (Fin T)" by blast
      with \<open>k = Suc j\<close> sh[of j] show ?thesis by (simp del: elapsed.simps)
    qed
  qed
  from 1 2 show ?case by blast
qed

text \<open>
  C5, as amended.  Take a \<^verbatim>\<open>Stop\<close> block that has not run (\<^verbatim>\<open>t\<close> is zero) with stop time
  \<open>T > 0\<close> and a step size \<open>d > 0\<close> for which the additions that accumulate the time are
  exact: adding \<open>d\<close> to \<open>k d\<close> gives \<open>(k + 1) d\<close> for every \<open>k\<close> below \<open>N\<close>, the least
  integer not below \<open>T / d\<close>.  Then each of the first \<open>N - 1\<close> calls of \<^verbatim>\<open>Step\<close> copies its
  input to its output, calls no callback and returns \<^verbatim>\<open>true\<close>, and call \<open>N\<close> leaves the output
  as it is, calls every callback once, in the order of the slice, and returns \<^verbatim>\<open>false\<close>.
\<close>

theorem Stop_halts_when_exact:
  assumes "t s = Fin 0" and "Time s = Fin T" and "0 < T" and "0 < d"
    and "N = nat \<lceil>T / d\<rceil>" and "N \<le> length vs"
    and "\<forall>k < N. fadd (Fin (of_nat k * d)) (Fin d) = Fin (of_nat (Suc k) * d)"
  shows "Stop_run (Fin d) s vs [y]
           = map (\<lambda>v. ([v], [], True)) (take (N - 1) vs)
               @ [(if N = 1 then [y] else [vs ! (N - 2)], Callbacks s, False)]"
proof -
  have el: "elapsed (Fin d) (t s) k = Fin (of_nat k * d)" if "k \<le> N" for k
    using that
  proof (induction k)
    case 0
    then show ?case by (simp add: assms(1))
  next
    case (Suc k)
    then have "k < N" by simp
    with assms(7) have "fadd (Fin (of_nat k * d)) (Fin d) = Fin (of_nat (Suc k) * d)" by blast
    with Suc show ?case by simp
  qed
  from assms(3,4) have "0 < T / d" by simp
  then have c: "0 < \<lceil>T / d\<rceil>" by simp
  have N1: "1 \<le> N" unfolding assms(5) using c by linarith
  from c have "0 \<le> \<lceil>T / d\<rceil>" by linarith
  then have Nc: "of_nat N = (of_int \<lceil>T / d\<rceil> :: rat)"
    by (simp only: assms(5) of_nat_nat)
  have before: "\<forall>k. 1 \<le> k \<and> k < N \<longrightarrow> \<not> fge (elapsed (Fin d) (t s) k) (Time s)"
  proof (intro allI impI)
    fix k assume k: "1 \<le> k \<and> k < N"
    with assms(5) c have "int k < \<lceil>T / d\<rceil>" by linarith
    then have "of_int (int k) < T / d" by (simp only: less_ceiling_iff)
    with assms(4) have "of_nat k * d < T" by (simp add: pos_less_divide_eq)
    with k show "\<not> fge (elapsed (Fin d) (t s) k) (Time s)"
      by (simp add: el assms(2) del: elapsed.simps)
  qed
  have "T / d \<le> of_nat N" unfolding Nc by (rule le_of_int_ceiling)
  with assms(4) have "T \<le> of_nat N * d" by (simp add: pos_divide_le_eq)
  then have at: "fge (elapsed (Fin d) (t s) N) (Time s)"
    by (simp add: el assms(2) del: elapsed.simps)
  from Stop_run_first_reach[OF N1 assms(6) before at] show ?thesis .
qed

lemma half_1:
  "fadd (Fin (0)) (Fin (1 / 2))
     = Fin (1 / 2)"
  by (rule trans, rule fadd_Fin_nearest[where e = "-1" and n = "4503599627370496"]) (simp_all add: pow2_def)

lemma half_2:
  "fadd (Fin (1 / 2)) (Fin (1 / 2))
     = Fin (1)"
  by (rule trans, rule fadd_Fin_nearest[where e = "0" and n = "4503599627370496"]) (simp_all add: pow2_def)

lemma half_3:
  "fadd (Fin (1)) (Fin (1 / 2))
     = Fin (3 / 2)"
  by (rule trans, rule fadd_Fin_nearest[where e = "0" and n = "6755399441055744"]) (simp_all add: pow2_def)

lemma half_4:
  "fadd (Fin (3 / 2)) (Fin (1 / 2))
     = Fin (2)"
  by (rule trans, rule fadd_Fin_nearest[where e = "1" and n = "4503599627370496"]) (simp_all add: pow2_def)

lemma half_5:
  "fadd (Fin (2)) (Fin (1 / 2))
     = Fin (5 / 2)"
  by (rule trans, rule fadd_Fin_nearest[where e = "1" and n = "5629499534213120"]) (simp_all add: pow2_def)

lemma half_6:
  "fadd (Fin (5 / 2)) (Fin (1 / 2))
     = Fin (3)"
  by (rule trans, rule fadd_Fin_nearest[where e = "1" and n = "6755399441055744"]) (simp_all add: pow2_def)

theorem Stop_halts_when_exact_witness:
  "nat \<lceil>(3::rat) / (1 / 2)\<rceil> = 6
   \<and> Stop_run (Fin (1 / 2)) \<lparr>Time = Fin 3, Callbacks = [0::nat, 1], t = Fin 0\<rparr>
        [Fin 1, Fin 2, Fin 3, Fin 4, Fin 5, Fin 6, Fin 7] [Fin 0]
      = [([Fin 1], [], True), ([Fin 2], [], True), ([Fin 3], [], True), ([Fin 4], [], True),
         ([Fin 5], [], True), ([Fin 5], [0, 1], False)]"
proof -
  let ?s = "\<lparr>Time = Fin 3, Callbacks = [0::nat, 1], t = Fin 0\<rparr>"
  let ?vs = "[Fin 1, Fin 2, Fin 3, Fin 4, Fin 5, Fin 6, Fin 7]"
  have N: "6 = nat \<lceil>(3::rat) / (1 / 2)\<rceil>" by simp
  have exact: "\<forall>k < 6. fadd (Fin (of_nat k * (1 / 2))) (Fin (1 / 2))
                          = Fin (of_nat (Suc k) * (1 / 2))"
  proof (intro allI impI)
    fix k :: nat assume "k < 6"
    then have "k = 0 \<or> k = 1 \<or> k = 2 \<or> k = 3 \<or> k = 4 \<or> k = 5" by presburger
    then show "fadd (Fin (of_nat k * (1 / 2))) (Fin (1 / 2)) = Fin (of_nat (Suc k) * (1 / 2))"
      using half_1 half_2 half_3 half_4 half_5 half_6 by (auto simp del: fadd.simps)
  qed
  have "Stop_run (Fin (1 / 2)) ?s ?vs [Fin 0]
          = map (\<lambda>v. ([v], [], True)) (take (6 - 1) ?vs)
              @ [(if (6::nat) = 1 then [Fin 0] else [?vs ! (6 - 2)], Callbacks ?s, False)]"
    by (rule Stop_halts_when_exact[where T = 3, OF _ _ _ _ N _ exact]) simp_all
  then show ?thesis by (simp add: numeral_eq_Suc)
qed

text \<open>
  C5, as stated, fails: the additions round.  With \<^verbatim>\<open>DT = 0.1\<close> (the binary64 number
  nearest to one tenth) and stop time 1, the least integer not below \<open>T / DT\<close> is 10, but
  the time accumulated by ten additions is still below 1: the tenth call of \<^verbatim>\<open>Step\<close>
  copies its input and returns \<^verbatim>\<open>true\<close>, and the callbacks run in the eleventh call.
\<close>

lemma tenth_1:
  "fadd (Fin (0)) (Fin (3602879701896397 / 36028797018963968))
     = Fin (3602879701896397 / 36028797018963968)"
  by (rule trans, rule fadd_Fin_nearest[where e = "-4" and n = "7205759403792794"]) (simp_all add: pow2_def)

lemma tenth_2:
  "fadd (Fin (3602879701896397 / 36028797018963968)) (Fin (3602879701896397 / 36028797018963968))
     = Fin (3602879701896397 / 18014398509481984)"
  by (rule trans, rule fadd_Fin_nearest[where e = "-3" and n = "7205759403792794"]) (simp_all add: pow2_def)

lemma tenth_3:
  "fadd (Fin (3602879701896397 / 18014398509481984)) (Fin (3602879701896397 / 36028797018963968))
     = Fin (1351079888211149 / 4503599627370496)"
  by (rule trans, rule fadd_Fin_tie[where e = "-2" and n = "5404319552844596"]) (simp_all add: pow2_def)

lemma tenth_4:
  "fadd (Fin (1351079888211149 / 4503599627370496)) (Fin (3602879701896397 / 36028797018963968))
     = Fin (3602879701896397 / 9007199254740992)"
  by (rule trans, rule fadd_Fin_tie[where e = "-2" and n = "7205759403792794"]) (simp_all add: pow2_def)

lemma tenth_5:
  "fadd (Fin (3602879701896397 / 9007199254740992)) (Fin (3602879701896397 / 36028797018963968))
     = Fin (1 / 2)"
  by (rule trans, rule fadd_Fin_nearest[where e = "-1" and n = "4503599627370496"]) (simp_all add: pow2_def)

lemma tenth_6:
  "fadd (Fin (1 / 2)) (Fin (3602879701896397 / 36028797018963968))
     = Fin (5404319552844595 / 9007199254740992)"
  by (rule trans, rule fadd_Fin_nearest[where e = "-1" and n = "5404319552844595"]) (simp_all add: pow2_def)

lemma tenth_7:
  "fadd (Fin (5404319552844595 / 9007199254740992)) (Fin (3602879701896397 / 36028797018963968))
     = Fin (3152519739159347 / 4503599627370496)"
  by (rule trans, rule fadd_Fin_nearest[where e = "-1" and n = "6305039478318694"]) (simp_all add: pow2_def)

lemma tenth_8:
  "fadd (Fin (3152519739159347 / 4503599627370496)) (Fin (3602879701896397 / 36028797018963968))
     = Fin (7205759403792793 / 9007199254740992)"
  by (rule trans, rule fadd_Fin_nearest[where e = "-1" and n = "7205759403792793"]) (simp_all add: pow2_def)

lemma tenth_9:
  "fadd (Fin (7205759403792793 / 9007199254740992)) (Fin (3602879701896397 / 36028797018963968))
     = Fin (2026619832316723 / 2251799813685248)"
  by (rule trans, rule fadd_Fin_nearest[where e = "-1" and n = "8106479329266892"]) (simp_all add: pow2_def)

lemma tenth_10:
  "fadd (Fin (2026619832316723 / 2251799813685248)) (Fin (3602879701896397 / 36028797018963968))
     = Fin (9007199254740991 / 9007199254740992)"
  by (rule trans, rule fadd_Fin_nearest[where e = "-1" and n = "9007199254740991"]) (simp_all add: pow2_def)

lemma tenth_11:
  "fadd (Fin (9007199254740991 / 9007199254740992)) (Fin (3602879701896397 / 36028797018963968))
     = Fin (4953959590107545 / 4503599627370496)"
  by (rule trans, rule fadd_Fin_nearest[where e = "0" and n = "4953959590107545"]) (simp_all add: pow2_def)

lemma tenth_elapsed:
  shows "elapsed (Fin (3602879701896397 / 36028797018963968)) (Fin 0) 1 = Fin (3602879701896397 / 36028797018963968)"
    and "elapsed (Fin (3602879701896397 / 36028797018963968)) (Fin 0) 2 = Fin (3602879701896397 / 18014398509481984)"
    and "elapsed (Fin (3602879701896397 / 36028797018963968)) (Fin 0) 3 = Fin (1351079888211149 / 4503599627370496)"
    and "elapsed (Fin (3602879701896397 / 36028797018963968)) (Fin 0) 4 = Fin (3602879701896397 / 9007199254740992)"
    and "elapsed (Fin (3602879701896397 / 36028797018963968)) (Fin 0) 5 = Fin (1 / 2)"
    and "elapsed (Fin (3602879701896397 / 36028797018963968)) (Fin 0) 6 = Fin (5404319552844595 / 9007199254740992)"
    and "elapsed (Fin (3602879701896397 / 36028797018963968)) (Fin 0) 7 = Fin (3152519739159347 / 4503599627370496)"
    and "elapsed (Fin (3602879701896397 / 36028797018963968)) (Fin 0) 8 = Fin (7205759403792793 / 9007199254740992)"
    and "elapsed (Fin (3602879701896397 / 36028797018963968)) (Fin 0) 9 = Fin (2026619832316723 / 2251799813685248)"
    and "elapsed (Fin (3602879701896397 / 36028797018963968)) (Fin 0) 10 = Fin (9007199254740991 / 9007199254740992)"
    and "elapsed (Fin (3602879701896397 / 36028797018963968)) (Fin 0) 11 = Fin (4953959590107545 / 4503599627370496)"
  by (simp_all add: numeral_eq_Suc del: fadd.simps)
     (simp_all add: tenth_1 tenth_2 tenth_3 tenth_4 tenth_5 tenth_6 tenth_7 tenth_8 tenth_9 tenth_10 tenth_11 del: fadd.simps)

lemma tenth_ceiling: "nat \<lceil>(1::rat) / (3602879701896397 / 36028797018963968)\<rceil> = 10"
proof -
  have "\<lceil>(1::rat) / (3602879701896397 / 36028797018963968)\<rceil> = 10" by (rule ceiling_unique) simp_all
  then show ?thesis by simp
qed

theorem Stop_late_counterexample:
  "round64 (1 / 10) = Fin (3602879701896397 / 36028797018963968)
   \<and> nat \<lceil>(1::rat) / (3602879701896397 / 36028797018963968)\<rceil> = 10
   \<and> Stop_run (Fin (3602879701896397 / 36028797018963968)) \<lparr>Time = Fin 1, Callbacks = [0::nat, 1], t = Fin 0\<rparr>
        (replicate 11 (Fin 7)) [Fin 0]
      = replicate 10 ([Fin 7], [], True) @ [([Fin 7], [0, 1], False)]"
proof -
  let ?s = "\<lparr>Time = Fin 1, Callbacks = [0::nat, 1], t = Fin 0\<rparr>"
  let ?d = "Fin (3602879701896397 / 36028797018963968)"
  have before: "\<forall>k. 1 \<le> k \<and> k < 11 \<longrightarrow> \<not> fge (elapsed ?d (t ?s) k) (Time ?s)"
  proof (intro allI impI)
    fix k :: nat assume "1 \<le> k \<and> k < 11"
    then have "k = 1 \<or> k = 2 \<or> k = 3 \<or> k = 4 \<or> k = 5 \<or> k = 6 \<or> k = 7 \<or> k = 8
                 \<or> k = 9 \<or> k = 10" by presburger
    then show "\<not> fge (elapsed ?d (t ?s) k) (Time ?s)"
      using tenth_elapsed by auto
  qed
  have at: "fge (elapsed ?d (t ?s) 11) (Time ?s)"
    using tenth_elapsed(11) by simp
  have "Stop_run ?d ?s (replicate 11 (Fin 7)) [Fin 0]
          = map (\<lambda>v. ([v], [], True)) (take (11 - 1) (replicate 11 (Fin 7)))
              @ [(if (11::nat) = 1 then [Fin 0] else [replicate 11 (Fin 7) ! (11 - 2)],
                  Callbacks ?s, False)]"
    by (rule Stop_run_first_reach[OF _ _ before at]) simp_all
  then show ?thesis using tenth_ceiling round64_tenth by (simp add: numeral_eq_Suc)
qed

text \<open>
  The same happens with the step size the package sets (\<^verbatim>\<open>DT = 0.01\<close>) and the stop time of
  its test \<^verbatim>\<open>TestOde1\<close> (\<^verbatim>\<open>Time: 3\<close>): 300 additions give a time below 3, and \<^verbatim>\<open>Step\<close> returns
  \<^verbatim>\<open>false\<close> in call 301.
\<close>

lemma default_sums_ok: "chain_ok 3 (5764607523034235 / 576460752303423488) 0 default_sums"
  unfolding default_sums_def by (simp add: pow2_def)

lemma default_sums_end: "chain_end 0 default_sums = 6755399441055699 / 2251799813685248"
  unfolding default_sums_def by (simp add: pow2_def)

lemma default_sums_length: "length default_sums = 300"
  unfolding default_sums_def by simp

lemma default_last:
  "fadd (Fin (6755399441055699 / 2251799813685248)) (Fin (5764607523034235 / 576460752303423488))
     = Fin (6777917439192551 / 2251799813685248)"
  by (rule trans, rule fadd_Fin_nearest[where e = "1" and n = "6777917439192551"]) (simp_all add: pow2_def)

theorem Stop_default_step_size:
  "round64 (1 / 100) = Fin (5764607523034235 / 576460752303423488)
   \<and> nat \<lceil>(3::rat) / (5764607523034235 / 576460752303423488)\<rceil> = 300
   \<and> Stop_run (Fin (5764607523034235 / 576460752303423488)) \<lparr>Time = Fin 3, Callbacks = [0::nat], t = Fin 0\<rparr>
        (replicate 301 (Fin 0)) [Fin 0]
      = replicate 300 ([Fin 0], [], True) @ [([Fin 0], [0], False)]"
proof -
  let ?s = "\<lparr>Time = Fin 3, Callbacks = [0::nat], t = Fin 0\<rparr>"
  let ?d = "Fin (5764607523034235 / 576460752303423488)"
  from chain_ok_elapsed[OF default_sums_ok]
  have e300: "elapsed ?d (Fin 0) 300 = Fin (6755399441055699 / 2251799813685248)"
    and below: "\<forall>k. 1 \<le> k \<and> k \<le> 300 \<longrightarrow> \<not> fge (elapsed ?d (Fin 0) k) (Fin 3)"
    by (simp_all add: default_sums_end default_sums_length del: elapsed.simps)
  have "elapsed ?d (Fin 0) (Suc 300) = Fin (6777917439192551 / 2251799813685248)"
    unfolding elapsed.simps e300 by (rule default_last)
  then have at: "fge (elapsed ?d (t ?s) 301) (Time ?s)" by (simp del: elapsed.simps)
  have before: "\<forall>k. 1 \<le> k \<and> k < 301 \<longrightarrow> \<not> fge (elapsed ?d (t ?s) k) (Time ?s)"
    using below by (simp del: elapsed.simps)
  have "Stop_run ?d ?s (replicate 301 (Fin 0)) [Fin 0]
          = map (\<lambda>v. ([v], [], True)) (take (301 - 1) (replicate 301 (Fin 0)))
              @ [(if (301::nat) = 1 then [Fin 0] else [replicate 301 (Fin 0) ! (301 - 2)],
                  Callbacks ?s, False)]"
    by (rule Stop_run_first_reach[OF _ _ before at]) simp_all
  moreover have "\<lceil>(3::rat) / (5764607523034235 / 576460752303423488)\<rceil> = 300" by (rule ceiling_unique) simp_all
  ultimately show ?thesis using round64_hundredth by simp
qed

end
